theory Spec2Isabelle
  imports Complex_Main
begin

section \<open>The LCOE calculation engine\<close>

text \<open>
  A shallow embedding of the calculation module of the solar LCOE calculator
  (\<^verbatim>\<open>calculateCAPEX\<close>, \<^verbatim>\<open>calculateEMI_likeExcel\<close>, \<^verbatim>\<open>calculateTotalOM\<close>,
  \<^verbatim>\<open>calculateTotalEnergy\<close>, \<^verbatim>\<open>calculateNPV\<close>, \<^verbatim>\<open>calculateNPVlikeExcel\<close>,
  \<^verbatim>\<open>calculateCUE\<close>, \<^verbatim>\<open>calculateLCOE\<close>, \<^verbatim>\<open>generateSensitivityAnalysis\<close>).

  Numbers. Every JavaScript number is modelled as a \<^typ>\<open>real\<close>: rounding, overflow and the
  IEEE special values are outside the model. The source divides by \<^verbatim>\<open>capacity\<close> and by
  \<^verbatim>\<open>Math.pow(1 + rate, t+1)\<close> without a guard; JavaScript yields \<^verbatim>\<open>Infinity\<close> or
  \<^verbatim>\<open>NaN\<close> when such a divisor is zero, whereas division by zero on \<^typ>\<open>real\<close> yields zero.
  Model and program therefore agree (up to rounding) on the inputs with a non-zero capacity and
  a discount rate other than \<open>-100\<close>. A theorem below that equates a field of the result with an
  expression containing such a quotient reads the same for the program, with the program's
  quotient on both sides; where the two readings would part (the discounting at a rate of
  \<open>-100\<close>), the theorem has a hypothesis that excludes the input. \<^verbatim>\<open>Math.pow(b, n)\<close> is only
  ever called with a loop counter as exponent and is modelled by \<open>b ^ n\<close>.

  Guarded quotients. The source guards two quotients: \<^verbatim>\<open>calculateCUE\<close> tests
  \<^verbatim>\<open>capacity === 0\<close> before it divides, and \<^verbatim>\<open>calculateLCOE\<close> tests
  \<^verbatim>\<open>total_energy > 0\<close> before it divides by the total energy. With a division that yields
  zero at a zero divisor such a guard could be left out without any change of the result. These
  two quotients, and the quotient by 1000 formed from the second, are therefore values of the
  type \<open>js_number\<close>, which keeps \<^verbatim>\<open>Infinity\<close>, \<^verbatim>\<open>-Infinity\<close> and \<^verbatim>\<open>NaN\<close> apart from
  the finite numbers, and they are formed by \<open>js_div\<close>, the quotient of JavaScript.

  Loops. Each \<^verbatim>\<open>for\<close> loop is a recursive function over the loop counter, carrying the
  accumulator of the source. The bounds \<^verbatim>\<open>years\<close> and \<^verbatim>\<open>project_lifetime\<close> are
  numbers, not necessarily integral: a loop \<^verbatim>\<open>for (i = 0; i < years; i++)\<close> runs
  \<open>nat \<lceil>years\<rceil>\<close> times.

  Effects. \<^verbatim>\<open>calculateNPVlikeExcel\<close> calls \<^verbatim>\<open>cash_flows.unshift(0.0)\<close> on the array it
  is given. Arrays are passed by reference, so the caller's array changes as well; the model
  makes this explicit by returning the array after the call next to the net present value.
  The \<^verbatim>\<open>console.log\<close> calls have no influence on any returned value and are left out.
\<close>

subsection \<open>Constants\<close>

definition hours_in_year :: real where
  "hours_in_year = 8760"

definition opex_escalation_rate :: real where
  "opex_escalation_rate = 0.05"

definition degradation_rate :: real where
  "degradation_rate = 0.005"

subsection \<open>JavaScript numbers with the special values\<close>

datatype js_number = Finite real | PosInfinity | NegInfinity | NaN

text \<open>
  The operator \<^verbatim>\<open>/\<close> of JavaScript on such numbers. A finite number divided by zero is
  \<^verbatim>\<open>Infinity\<close> or \<^verbatim>\<open>-Infinity\<close> by the sign of the dividend, and \<^verbatim>\<open>NaN\<close> when the
  dividend is zero too. The sign of a zero is not modelled: a zero divisor counts as \<open>+0\<close>, and
  a finite number divided by an infinite one is the zero \<open>Finite 0\<close>.
\<close>

fun js_div :: "js_number \<Rightarrow> js_number \<Rightarrow> js_number" where
  "js_div (Finite a) (Finite b) =
     (if b \<noteq> 0 then Finite (a / b)
      else if 0 < a then PosInfinity
      else if a < 0 then NegInfinity
      else NaN)"
| "js_div (Finite a) PosInfinity = Finite 0"
| "js_div (Finite a) NegInfinity = Finite 0"
| "js_div PosInfinity (Finite b) = (if 0 \<le> b then PosInfinity else NegInfinity)"
| "js_div NegInfinity (Finite b) = (if 0 \<le> b then NegInfinity else PosInfinity)"
| "js_div PosInfinity PosInfinity = NaN"
| "js_div PosInfinity NegInfinity = NaN"
| "js_div NegInfinity PosInfinity = NaN"
| "js_div NegInfinity NegInfinity = NaN"
| "js_div NaN y = NaN"
| "js_div x NaN = NaN"

text \<open>The operator \<^verbatim>\<open><=\<close> of JavaScript: every comparison with \<^verbatim>\<open>NaN\<close> is false.\<close>

fun js_le :: "js_number \<Rightarrow> js_number \<Rightarrow> bool" where
  "js_le (Finite a) (Finite b) = (a \<le> b)"
| "js_le NaN y = False"
| "js_le x NaN = False"
| "js_le NegInfinity y = True"
| "js_le x PosInfinity = True"
| "js_le x y = False"

subsection \<open>Core calculation functions\<close>

definition calculateCAPEX :: "real \<Rightarrow> real \<Rightarrow> real" where
  "calculateCAPEX capacity capex_per_mw = capex_per_mw / capacity"

text \<open>
  The parameter \<^verbatim>\<open>years\<close> is not used by the source. The parameter \<^verbatim>\<open>principal\<close> is
  written \<open>principal'\<close>, the plain name being a constant of the library; for the same
  reason the accumulator \<^verbatim>\<open>total\<close> of the two summation loops below is written \<open>total'\<close>.
\<close>

definition calculateEMI_likeExcel :: "real \<Rightarrow> real \<Rightarrow> real \<Rightarrow> real" where
  "calculateEMI_likeExcel principal' annual_rate years =
     (let r = annual_rate / 100;
          ann_emi = principal' * r
      in ann_emi)"

function calculateTotalOM_loop :: "real \<Rightarrow> real \<Rightarrow> nat \<Rightarrow> real \<Rightarrow> real" where
  "calculateTotalOM_loop annual_opex years i total' =
     (if real i < years
      then (let escalated_opex = annual_opex * (1 + opex_escalation_rate) ^ i
            in calculateTotalOM_loop annual_opex years (Suc i) (total' + escalated_opex))
      else total')"
  by pat_completeness auto
termination
  by (relation "measure (\<lambda>(annual_opex, years, i, total'). nat \<lceil>years\<rceil> - i)")
     (auto simp: zless_nat_eq_int_zless less_ceiling_iff intro!: diff_less_mono2)

definition calculateTotalOM :: "real \<Rightarrow> real \<Rightarrow> real" where
  "calculateTotalOM annual_opex years = calculateTotalOM_loop annual_opex years 0 0"

function calculateTotalEnergy_loop :: "real \<Rightarrow> real \<Rightarrow> nat \<Rightarrow> real \<Rightarrow> real" where
  "calculateTotalEnergy_loop annual_energy years i total' =
     (if real i < years
      then (let degraded_energy = annual_energy * (1 - degradation_rate) ^ i
            in calculateTotalEnergy_loop annual_energy years (Suc i) (total' + degraded_energy))
      else total')"
  by pat_completeness auto
termination
  by (relation "measure (\<lambda>(annual_energy, years, i, total'). nat \<lceil>years\<rceil> - i)")
     (auto simp: zless_nat_eq_int_zless less_ceiling_iff intro!: diff_less_mono2)

definition calculateTotalEnergy :: "real \<Rightarrow> real \<Rightarrow> real" where
  "calculateTotalEnergy annual_energy years = calculateTotalEnergy_loop annual_energy years 0 0"

text \<open>
  The loop shared by \<^verbatim>\<open>calculateNPV\<close> and \<^verbatim>\<open>calculateNPVlikeExcel\<close>: the two bodies are
  the same text. The index \<open>t\<close> stays below the length of the array, so every read is in range.
\<close>

function calculateNPV_loop :: "real \<Rightarrow> real list \<Rightarrow> nat \<Rightarrow> real \<Rightarrow> real" where
  "calculateNPV_loop rate cash_flows t npv =
     (if t < length cash_flows
      then (let pv = cash_flows ! t / (1 + rate) ^ (t + 1)
            in calculateNPV_loop rate cash_flows (Suc t) (npv + pv))
      else npv)"
  by pat_completeness auto
termination
  by (relation "measure (\<lambda>(rate, cash_flows, t, npv). length cash_flows - t)") auto

definition calculateNPV :: "real \<Rightarrow> real list \<Rightarrow> real" where
  "calculateNPV discount_rate cash_flows =
     (let rate = discount_rate / 100
      in calculateNPV_loop rate cash_flows 0 0)"

text \<open>
  \<^verbatim>\<open>cash_flows.unshift(0.0)\<close> puts a zero in front of the caller's array. The second component
  of the result is that array as the caller sees it after the call.
\<close>

definition calculateNPVlikeExcel :: "real \<Rightarrow> real list \<Rightarrow> real \<times> real list" where
  "calculateNPVlikeExcel discount_rate cash_flows =
     (let rate = discount_rate / 100;
          cash_flows = 0 # cash_flows
      in (calculateNPV_loop rate cash_flows 0 0, cash_flows))"

text \<open>
  The arguments of \<^verbatim>\<open>calculateCUE\<close> are finite numbers; its result is a JavaScript number,
  so that the quotient at a zero capacity, were it formed, would not be the sentinel.
\<close>

definition calculateCUE :: "real \<Rightarrow> real \<Rightarrow> js_number" where
  "calculateCUE annual_energy capacity =
     (if capacity = 0 then Finite 0
      else js_div (Finite annual_energy) (Finite (capacity * hours_in_year)))"

subsection \<open>The cash-flow loop of the orchestrator\<close>

text \<open>Step 5 of \<^verbatim>\<open>calculateLCOE\<close>: the loop that pushes one cash flow per year.\<close>

function calculateLCOE_loop ::
    "real \<Rightarrow> real \<Rightarrow> real \<Rightarrow> real \<Rightarrow> nat \<Rightarrow> real list \<Rightarrow> real list" where
  "calculateLCOE_loop annual_opex annual_emi loan_tenure project_lifetime year cash_flows =
     (if real year < project_lifetime
      then (let om_year = annual_opex * (1 + opex_escalation_rate) ^ year;
                emi_year = (if real year < loan_tenure then annual_emi else 0)
            in calculateLCOE_loop annual_opex annual_emi loan_tenure project_lifetime
                 (Suc year) (cash_flows @ [om_year + emi_year]))
      else cash_flows)"
  by pat_completeness auto
termination
  by (relation "measure (\<lambda>(annual_opex, annual_emi, loan_tenure, project_lifetime, year,
        cash_flows). nat \<lceil>project_lifetime\<rceil> - year)")
     (auto simp: zless_nat_eq_int_zless less_ceiling_iff intro!: diff_less_mono2)

text \<open>
  The loop equations are unfolded by hand where needed; the closed forms proved below are what
  the proofs use.
\<close>

declare calculateTotalOM_loop.simps [simp del]
declare calculateTotalEnergy_loop.simps [simp del]
declare calculateNPV_loop.simps [simp del]
declare calculateLCOE_loop.simps [simp del]

subsection \<open>Input and result records, and the orchestrator\<close>

record inputs =
  capacity :: real
  energy_generation :: real
  capex_per_mw :: real
  opex_percent :: real
  interest_rate :: real
  loan_tenure :: real
  project_lifetime :: real
  discount_rate :: real

record results =
  capex :: real
  annual_opex :: real
  annual_emi :: real
  total_om :: real
  total_loan :: real
  total_opex :: real
  npv_opex :: real
  total_energy :: real
  lcoe_mwh :: js_number
  lcoe_kwh :: js_number
  cue :: js_number
  cash_flows :: "real list"

text \<open>
  An entry of the array returned by \<^verbatim>\<open>generateSensitivityAnalysis\<close>. Its fields are
  \<^verbatim>\<open>rate\<close>, \<^verbatim>\<open>lcoe_kwh\<close> and \<^verbatim>\<open>lcoe_mwh\<close> in the source; they are prefixed here,
  since the result record above already has fields \<open>lcoe_kwh\<close> and \<open>lcoe_mwh\<close>.
\<close>

record sensitivity_point =
  point_rate :: real
  point_lcoe_kwh :: js_number
  point_lcoe_mwh :: js_number

definition calculateLCOE :: "inputs \<Rightarrow> results" where
  "calculateLCOE inputs =
     (let capex = calculateCAPEX (capacity inputs) (capex_per_mw inputs);
          energy_generation_per_year = energy_generation inputs / capacity inputs;
          annual_opex = (capex * opex_percent inputs) / 100;
          annual_emi = calculateEMI_likeExcel capex (interest_rate inputs) (loan_tenure inputs);
          total_om = calculateTotalOM annual_opex (project_lifetime inputs);
          total_loan = annual_emi * loan_tenure inputs;
          total_opex = total_om + total_loan;
          cash_flows = calculateLCOE_loop annual_opex annual_emi (loan_tenure inputs)
                         (project_lifetime inputs) 0 [];
          (npv_opex, cash_flows) = calculateNPVlikeExcel (discount_rate inputs) cash_flows;
          total_energy = calculateTotalEnergy energy_generation_per_year
                           (project_lifetime inputs);
          lcoe_mwh = (if total_energy > 0
                      then js_div (Finite (capex + npv_opex)) (Finite total_energy)
                      else Finite 0);
          lcoe_kwh = js_div lcoe_mwh (Finite 1000);
          cue = calculateCUE (energy_generation inputs) (capacity inputs)
      in \<lparr>capex = capex, annual_opex = annual_opex, annual_emi = annual_emi,
          total_om = total_om, total_loan = total_loan, total_opex = total_opex,
          npv_opex = npv_opex, total_energy = total_energy, lcoe_mwh = lcoe_mwh,
          lcoe_kwh = lcoe_kwh, cue = cue, cash_flows = cash_flows\<rparr>)"

subsection \<open>The discount-rate sweep\<close>

text \<open>
  \<^verbatim>\<open>for (let rate = min_rate; rate <= max_rate; rate += step)\<close> does not end when
  \<open>step \<le> 0\<close> and \<open>min_rate \<le> max_rate\<close>; the loop is therefore a partial function, and
  \<open>None\<close> stands for a call that does not return.
\<close>

partial_function (option) generateSensitivityAnalysis_loop ::
    "inputs \<Rightarrow> real \<Rightarrow> real \<Rightarrow> real \<Rightarrow> sensitivity_point list \<Rightarrow> sensitivity_point list option"
where
  "generateSensitivityAnalysis_loop base_inputs max_rate step rate results =
     (if rate \<le> max_rate
      then (let inputs = base_inputs\<lparr>discount_rate := rate\<rparr>;
                calc = calculateLCOE inputs
            in generateSensitivityAnalysis_loop base_inputs max_rate step (rate + step)
                 (results @ [\<lparr>point_rate = rate, point_lcoe_kwh = lcoe_kwh calc,
                               point_lcoe_mwh = lcoe_mwh calc\<rparr>]))
      else Some results)"

declare generateSensitivityAnalysis_loop.simps [code]

definition generateSensitivityAnalysis ::
    "inputs \<Rightarrow> real \<Rightarrow> real \<Rightarrow> real \<Rightarrow> sensitivity_point list option" where
  "generateSensitivityAnalysis base_inputs min_rate max_rate step =
     generateSensitivityAnalysis_loop base_inputs max_rate step min_rate []"

subsection \<open>The series that is discounted, and two discounting conventions\<close>

text \<open>
  Steps 1, 2 and 5 of \<^verbatim>\<open>calculateLCOE\<close> on their own: the array of annual cash flows as the
  loop leaves it, before \<^verbatim>\<open>calculateNPVlikeExcel\<close> is called on it.
\<close>

definition annual_series :: "inputs \<Rightarrow> real list" where
  "annual_series inputs =
     (let capex = calculateCAPEX (capacity inputs) (capex_per_mw inputs);
          annual_opex = (capex * opex_percent inputs) / 100;
          annual_emi = calculateEMI_likeExcel capex (interest_rate inputs) (loan_tenure inputs)
      in calculateLCOE_loop annual_opex annual_emi (loan_tenure inputs)
           (project_lifetime inputs) 0 [])"

text \<open>
  The present value of a series when the flow at index \<open>i\<close> is divided by
  \<open>(1 + discount_rate / 100) ^ (i + k)\<close>. The specification's convention for the annual series
  is \<open>k = 1\<close>: the first flow falls at the end of year 1.
\<close>

definition discounted_from :: "nat \<Rightarrow> real \<Rightarrow> real list \<Rightarrow> real" where
  "discounted_from k d cfs = (\<Sum>i<length cfs. cfs ! i / (1 + d / 100) ^ (i + k))"

subsection \<open>A small project\<close>

text \<open>
  A one-megawatt project with a capital cost of 400, no operating cost, a loan at 100 percent
  interest over one year, a lifetime of one year and no discounting: the calculation on it,
  and on the variants used below, can be followed by hand.
\<close>

definition unit_project :: inputs where
  "unit_project =
     \<lparr>capacity = 1, energy_generation = 1, capex_per_mw = 400, opex_percent = 0,
      interest_rate = 100, loan_tenure = 1, project_lifetime = 1, discount_rate = 0\<rparr>"

subsection \<open>The sweep at its default arguments\<close>

text \<open>
  The entry that one pass of the loop of \<^verbatim>\<open>generateSensitivityAnalysis\<close> pushes for the rate
  \<open>r\<close>, and the values that the loop variable takes for the default arguments
  \<^verbatim>\<open>min_rate = 5\<close>, \<^verbatim>\<open>max_rate = 15\<close>, \<^verbatim>\<open>step = 0.5\<close>.
\<close>

definition sweep_point :: "inputs \<Rightarrow> real \<Rightarrow> sensitivity_point" where
  "sweep_point base r =
     \<lparr>point_rate = r,
      point_lcoe_kwh = lcoe_kwh (calculateLCOE (base\<lparr>discount_rate := r\<rparr>)),
      point_lcoe_mwh = lcoe_mwh (calculateLCOE (base\<lparr>discount_rate := r\<rparr>))\<rparr>"

definition default_rates :: "real list" where
  "default_rates = [5, 5.5, 6, 6.5, 7, 7.5, 8, 8.5, 9, 9.5, 10, 10.5, 11, 11.5, 12, 12.5, 13,
     13.5, 14, 14.5, 15]"

section \<open>Closed forms\<close>

subsection \<open>The loops\<close>

lemma loop_bound: "real i < y \<longleftrightarrow> i < nat \<lceil>y\<rceil>"
  by (simp add: zless_nat_eq_int_zless less_ceiling_iff)

lemma calculateTotalOM_loop_sum:
  "calculateTotalOM_loop a y i s =
     s + (\<Sum>k = i..<nat \<lceil>y\<rceil>. a * (1 + opex_escalation_rate) ^ k)"
proof (induction a y i s rule: calculateTotalOM_loop.induct)
  case (1 a y i s)
  show ?case
  proof (cases "real i < y")
    case True
    then have "i < nat \<lceil>y\<rceil>" by (simp add: loop_bound)
    with True "1" show ?thesis
      by (simp add: calculateTotalOM_loop.simps [of a y i s] sum.atLeast_Suc_lessThan add.assoc)
  next
    case False
    then have "\<not> i < nat \<lceil>y\<rceil>" by (simp add: loop_bound)
    with False show ?thesis by (simp add: calculateTotalOM_loop.simps [of a y i s])
  qed
qed

lemma calculateTotalEnergy_loop_sum:
  "calculateTotalEnergy_loop a y i s =
     s + (\<Sum>k = i..<nat \<lceil>y\<rceil>. a * (1 - degradation_rate) ^ k)"
proof (induction a y i s rule: calculateTotalEnergy_loop.induct)
  case (1 a y i s)
  show ?case
  proof (cases "real i < y")
    case True
    then have "i < nat \<lceil>y\<rceil>" by (simp add: loop_bound)
    with True "1" show ?thesis
      by (simp add: calculateTotalEnergy_loop.simps [of a y i s] sum.atLeast_Suc_lessThan
          add.assoc)
  next
    case False
    then have "\<not> i < nat \<lceil>y\<rceil>" by (simp add: loop_bound)
    with False show ?thesis by (simp add: calculateTotalEnergy_loop.simps [of a y i s])
  qed
qed

lemma calculateNPV_loop_sum:
  "calculateNPV_loop r cfs t s = s + (\<Sum>k = t..<length cfs. cfs ! k / (1 + r) ^ (k + 1))"
proof (induction r cfs t s rule: calculateNPV_loop.induct)
  case (1 r cfs t s)
  show ?case
  proof (cases "t < length cfs")
    case True
    with "1" show ?thesis
      by (simp add: calculateNPV_loop.simps [of r cfs t s] sum.atLeast_Suc_lessThan add.assoc)
  next
    case False
    then show ?thesis by (simp add: calculateNPV_loop.simps [of r cfs t s])
  qed
qed

lemma calculateLCOE_loop_map:
  "calculateLCOE_loop ao ae lt pl year acc =
     acc @ map (\<lambda>i. ao * (1 + opex_escalation_rate) ^ i + (if real i < lt then ae else 0))
             [year..<nat \<lceil>pl\<rceil>]"
proof (induction ao ae lt pl year acc rule: calculateLCOE_loop.induct)
  case (1 ao ae lt pl year acc)
  show ?case
  proof (cases "real year < pl")
    case True
    then have "year < nat \<lceil>pl\<rceil>" by (simp add: loop_bound)
    with True "1" show ?thesis
      by (simp add: calculateLCOE_loop.simps [of ao ae lt pl year acc] upt_conv_Cons)
  next
    case False
    then have "\<not> year < nat \<lceil>pl\<rceil>" by (simp add: loop_bound)
    with False show ?thesis by (simp add: calculateLCOE_loop.simps [of ao ae lt pl year acc])
  qed
qed

lemma calculateTotalOM_sum:
  "calculateTotalOM a y = (\<Sum>k<nat \<lceil>y\<rceil>. a * (1 + opex_escalation_rate) ^ k)"
  by (simp add: calculateTotalOM_def calculateTotalOM_loop_sum atLeast0LessThan)

lemma calculateTotalEnergy_sum:
  "calculateTotalEnergy a y = (\<Sum>k<nat \<lceil>y\<rceil>. a * (1 - degradation_rate) ^ k)"
  by (simp add: calculateTotalEnergy_def calculateTotalEnergy_loop_sum atLeast0LessThan)

text \<open>
  \<^verbatim>\<open>calculateNPV\<close>, whose call in \<^verbatim>\<open>calculateLCOE\<close> is commented out, discounts the flow
  at index \<open>i\<close> with the exponent \<open>i + 1\<close>.
\<close>

lemma calculateNPV_discounted: "calculateNPV d cfs = discounted_from 1 d cfs"
  by (simp add: calculateNPV_def Let_def calculateNPV_loop_sum discounted_from_def
      atLeast0LessThan)

text \<open>
  The loop of \<^verbatim>\<open>calculateNPVlikeExcel\<close> runs over the array with the zero in front: the zero
  takes the exponent 1 and the flow at index \<open>i\<close> of the original array the exponent \<open>i + 2\<close>.
\<close>

lemma calculateNPV_loop_unshift:
  "calculateNPV_loop r (0 # cfs) 0 0 = (\<Sum>i<length cfs. cfs ! i / (1 + r) ^ (i + 2))"
proof -
  have "calculateNPV_loop r (0 # cfs) 0 0 =
          (\<Sum>k<Suc (length cfs). (0 # cfs) ! k / (1 + r) ^ (k + 1))"
    by (simp add: calculateNPV_loop_sum atLeast0LessThan del: sum.lessThan_Suc)
  also have "\<dots> = (\<Sum>i<length cfs. cfs ! i / (1 + r) ^ (i + 2))"
    by (simp add: sum.lessThan_Suc_shift del: sum.lessThan_Suc)
  finally show ?thesis .
qed

subsection \<open>The fields of the result\<close>

lemma capex_calculateLCOE: "capex (calculateLCOE inp) = capex_per_mw inp / capacity inp"
  by (simp add: calculateLCOE_def Let_def calculateCAPEX_def split: prod.split)

lemma annual_opex_calculateLCOE:
  "annual_opex (calculateLCOE inp) = (capex (calculateLCOE inp) * opex_percent inp) / 100"
  by (simp add: calculateLCOE_def Let_def calculateCAPEX_def split: prod.split)

lemma annual_emi_calculateLCOE:
  "annual_emi (calculateLCOE inp) = capex (calculateLCOE inp) * (interest_rate inp / 100)"
  by (simp add: calculateLCOE_def Let_def calculateCAPEX_def calculateEMI_likeExcel_def
      split: prod.split)

lemma total_om_calculateLCOE:
  "total_om (calculateLCOE inp) =
     calculateTotalOM (annual_opex (calculateLCOE inp)) (project_lifetime inp)"
  by (simp add: calculateLCOE_def Let_def split: prod.split)

lemma total_loan_calculateLCOE:
  "total_loan (calculateLCOE inp) = annual_emi (calculateLCOE inp) * loan_tenure inp"
  by (simp add: calculateLCOE_def Let_def split: prod.split)

lemma total_energy_calculateLCOE:
  "total_energy (calculateLCOE inp) =
     calculateTotalEnergy (energy_generation inp / capacity inp) (project_lifetime inp)"
  by (simp add: calculateLCOE_def Let_def split: prod.split)

text \<open>The array in the result is the one that \<^verbatim>\<open>calculateNPVlikeExcel\<close> has changed.\<close>

lemma cash_flows_calculateLCOE: "cash_flows (calculateLCOE inp) = 0 # annual_series inp"
  by (simp add: calculateLCOE_def annual_series_def Let_def calculateNPVlikeExcel_def)

lemma npv_opex_calculateLCOE:
  "npv_opex (calculateLCOE inp) =
     calculateNPV_loop (discount_rate inp / 100) (0 # annual_series inp) 0 0"
  by (simp add: calculateLCOE_def annual_series_def Let_def calculateNPVlikeExcel_def)

lemma lcoe_mwh_calculateLCOE:
  "lcoe_mwh (calculateLCOE inp) =
     (if total_energy (calculateLCOE inp) > 0
      then js_div (Finite (capex (calculateLCOE inp) + npv_opex (calculateLCOE inp)))
             (Finite (total_energy (calculateLCOE inp)))
      else Finite 0)"
  by (simp add: calculateLCOE_def Let_def split: prod.split)

lemma lcoe_kwh_calculateLCOE:
  "lcoe_kwh (calculateLCOE inp) = js_div (lcoe_mwh (calculateLCOE inp)) (Finite 1000)"
  by (simp add: calculateLCOE_def Let_def split: prod.split)

text \<open>Behind its guard the quotient by the total energy is a finite number.\<close>

lemma lcoe_mwh_Finite:
  "lcoe_mwh (calculateLCOE inp) =
     Finite (if total_energy (calculateLCOE inp) > 0
             then (capex (calculateLCOE inp) + npv_opex (calculateLCOE inp)) /
                    total_energy (calculateLCOE inp)
             else 0)"
  by (simp add: lcoe_mwh_calculateLCOE)

lemma lcoe_kwh_Finite:
  "lcoe_kwh (calculateLCOE inp) =
     Finite ((if total_energy (calculateLCOE inp) > 0
              then (capex (calculateLCOE inp) + npv_opex (calculateLCOE inp)) /
                     total_energy (calculateLCOE inp)
              else 0) / 1000)"
  by (simp add: lcoe_kwh_calculateLCOE lcoe_mwh_Finite)

lemma cue_calculateLCOE:
  "cue (calculateLCOE inp) = calculateCUE (energy_generation inp) (capacity inp)"
  by (simp add: calculateLCOE_def Let_def split: prod.split)

lemma annual_series_map:
  "annual_series inp =
     map (\<lambda>i. annual_opex (calculateLCOE inp) * (1 + opex_escalation_rate) ^ i +
               (if real i < loan_tenure inp then annual_emi (calculateLCOE inp) else 0))
       [0..<nat \<lceil>project_lifetime inp\<rceil>]"
  by (simp add: annual_series_def Let_def calculateLCOE_loop_map annual_opex_calculateLCOE
      annual_emi_calculateLCOE capex_calculateLCOE calculateCAPEX_def
      calculateEMI_likeExcel_def)

lemma length_annual_series: "length (annual_series inp) = nat \<lceil>project_lifetime inp\<rceil>"
  by (simp add: annual_series_map)

lemma nth_annual_series:
  "i < nat \<lceil>project_lifetime inp\<rceil> \<Longrightarrow>
   annual_series inp ! i =
     annual_opex (calculateLCOE inp) * (1 + opex_escalation_rate) ^ i +
     (if real i < loan_tenure inp then annual_emi (calculateLCOE inp) else 0)"
  by (simp add: annual_series_map)

lemma npv_opex_discounted:
  "npv_opex (calculateLCOE inp) = discounted_from 2 (discount_rate inp) (annual_series inp)"
  by (simp add: npv_opex_calculateLCOE calculateNPV_loop_unshift discounted_from_def)

text \<open>The discount rate is used by the discounting step only.\<close>

lemma annual_series_discount_rate [simp]:
  "annual_series (base\<lparr>discount_rate := d\<rparr>) = annual_series base"
  by (simp add: annual_series_def)

lemma length_cash_flows_calculateLCOE:
  "length (cash_flows (calculateLCOE inp)) = Suc (nat \<lceil>project_lifetime inp\<rceil>)"
  by (simp add: cash_flows_calculateLCOE length_annual_series)

subsection \<open>The small project\<close>

lemma unit_project_sel [simp]:
  "capacity unit_project = 1" "energy_generation unit_project = 1"
  "capex_per_mw unit_project = 400" "opex_percent unit_project = 0"
  "interest_rate unit_project = 100" "loan_tenure unit_project = 1"
  "project_lifetime unit_project = 1" "discount_rate unit_project = 0"
  by (simp_all add: unit_project_def)

lemma sum_lessThan_2: "(\<Sum>i<2. f i) = f 0 + (f (Suc 0) :: real)"
  by (simp add: numeral_2_eq_2)

lemma annual_series_unit_project: "annual_series unit_project = [400]"
  by (simp add: annual_series_map annual_opex_calculateLCOE annual_emi_calculateLCOE
      capex_calculateLCOE upt_conv_Cons)

lemma annual_series_two_years:
  "annual_series (unit_project\<lparr>project_lifetime := 2\<rparr>) = [400, 0]"
  by (simp add: annual_series_map annual_opex_calculateLCOE annual_emi_calculateLCOE
      capex_calculateLCOE upt_conv_Cons numeral_2_eq_2)

subsection \<open>The sweep\<close>

text \<open>
  With the default arguments the loop of \<^verbatim>\<open>generateSensitivityAnalysis\<close> ends after 21
  passes, whatever the base inputs are.
\<close>

lemma generateSensitivityAnalysis_default:
  "generateSensitivityAnalysis base 5 15 0.5 = Some (map (sweep_point base) default_rates)"
  by (simp add: generateSensitivityAnalysis_def generateSensitivityAnalysis_loop.simps Let_def
      sweep_point_def default_rates_def)

lemma default_rates_sorted: "sorted_wrt (\<lambda>a b. - 100 < a \<and> a \<le> b) default_rates"
  by (simp add: default_rates_def)

subsection \<open>Discounting and the discount rate\<close>

lemma discounted_from_antimono:
  assumes nonneg: "\<forall>x\<in>set cfs. 0 \<le> x" and d1: "- 100 < d1" and le: "d1 \<le> d2"
  shows "discounted_from k d2 cfs \<le> discounted_from k d1 cfs"
proof -
  have b1: "0 < 1 + d1 / 100" using d1 by simp
  have b12: "1 + d1 / 100 \<le> 1 + d2 / 100" using le by simp
  have b2: "0 < 1 + d2 / 100" using b1 b12 by linarith
  have "cfs ! i / (1 + d2 / 100) ^ (i + k) \<le> cfs ! i / (1 + d1 / 100) ^ (i + k)"
    if "i < length cfs" for i
  proof (rule divide_left_mono)
    show "(1 + d1 / 100) ^ (i + k) \<le> (1 + d2 / 100) ^ (i + k)"
      using b1 b12 by (intro power_mono) simp_all
    show "0 \<le> cfs ! i" using nonneg that by simp
    show "0 < (1 + d2 / 100) ^ (i + k) * (1 + d1 / 100) ^ (i + k)"
      using b1 b2 by (intro mult_pos_pos zero_less_power)
  qed
  then show ?thesis
    unfolding discounted_from_def by (intro sum_mono) simp
qed

lemma annual_series_nonneg:
  assumes "0 < capacity base" "0 \<le> capex_per_mw base" "0 \<le> opex_percent base"
    "0 \<le> interest_rate base"
  shows "\<forall>x\<in>set (annual_series base). 0 \<le> x"
proof -
  have c: "0 \<le> capex (calculateLCOE base)"
    using assms by (simp add: capex_calculateLCOE)
  have o: "0 \<le> annual_opex (calculateLCOE base)"
    using c assms by (simp add: annual_opex_calculateLCOE)
  have e: "0 \<le> annual_emi (calculateLCOE base)"
    using c assms by (simp add: annual_emi_calculateLCOE)
  show ?thesis
    using o e by (auto simp: annual_series_map opex_escalation_rate_def)
qed

lemma lcoe_kwh_antimono:
  assumes "0 < capacity base" "0 \<le> capex_per_mw base" "0 \<le> opex_percent base"
    "0 \<le> interest_rate base" and d1: "- 100 < d1" and le: "d1 \<le> d2"
  shows "js_le (lcoe_kwh (calculateLCOE (base\<lparr>discount_rate := d2\<rparr>)))
           (lcoe_kwh (calculateLCOE (base\<lparr>discount_rate := d1\<rparr>)))"
proof -
  let ?r1 = "calculateLCOE (base\<lparr>discount_rate := d1\<rparr>)"
  let ?r2 = "calculateLCOE (base\<lparr>discount_rate := d2\<rparr>)"
  have npv: "npv_opex ?r2 \<le> npv_opex ?r1"
    using discounted_from_antimono [OF annual_series_nonneg [OF assms(1-4)] d1 le]
    by (simp add: npv_opex_discounted)
  have cap: "capex ?r2 = capex ?r1" by (simp add: capex_calculateLCOE)
  have en: "total_energy ?r2 = total_energy ?r1" by (simp add: total_energy_calculateLCOE)
  show ?thesis
    using npv by (simp add: lcoe_kwh_Finite cap en divide_right_mono)
qed

section \<open>Present value of the costs\<close>

text \<open>
  C1, as stated, does not hold: the present value of costs would be the annual series
  discounted with the exponent \<open>i + 1\<close> at index \<open>i\<close>. On the small project with a discount rate of
  100 percent the annual series is the single flow 400; the convention of C1 gives
  \<open>400 / 2 = 200\<close>, and \<^verbatim>\<open>calculateLCOE\<close> returns \<open>0 / 2 + 400 / 4 = 100\<close>.
\<close>

theorem npv_opex_not_discounted_from_year_one:
  "annual_series (unit_project\<lparr>discount_rate := 100\<rparr>) = [400] \<and>
   npv_opex (calculateLCOE (unit_project\<lparr>discount_rate := 100\<rparr>)) = 100 \<and>
   discounted_from 1 (discount_rate (unit_project\<lparr>discount_rate := 100\<rparr>))
     (annual_series (unit_project\<lparr>discount_rate := 100\<rparr>)) = 200"
  by (simp add: annual_series_unit_project npv_opex_discounted discounted_from_def)

text \<open>
  C1, amended. For every input record with a discount rate other than \<open>-100\<close>, the present
  value of costs is that of the annual series with a zero in front, discounted with the
  exponent \<open>t + 1\<close> at index \<open>t\<close>: the zero takes the exponent 1, and the cash flow at index \<open>i\<close> of
  the annual series is divided by \<open>(1 + discount_rate / 100) ^ (i + 2)\<close>. The first real cash
  flow is treated as falling at the end of year 2. (At a discount rate of \<open>-100\<close> the program
  divides zero by zero.)
\<close>

theorem npv_opex_discounted_from_year_two:
  "discount_rate inp \<noteq> - 100 \<Longrightarrow>
   npv_opex (calculateLCOE inp) =
     discounted_from 1 (discount_rate inp) (0 # annual_series inp) \<and>
   npv_opex (calculateLCOE inp) = discounted_from 2 (discount_rate inp) (annual_series inp)"
  by (simp add: npv_opex_calculateLCOE calculateNPV_loop_unshift discounted_from_def
      sum.lessThan_Suc_shift del: sum.lessThan_Suc)

text \<open>Witness for the amended C1, on the input of the counterexample.\<close>

theorem npv_opex_discounted_from_year_two_witness:
  "discount_rate (unit_project\<lparr>discount_rate := 100\<rparr>) \<noteq> - 100 \<and>
   annual_series (unit_project\<lparr>discount_rate := 100\<rparr>) = [400] \<and>
   npv_opex (calculateLCOE (unit_project\<lparr>discount_rate := 100\<rparr>)) = 100"
  using npv_opex_discounted_from_year_two [of "unit_project\<lparr>discount_rate := 100\<rparr>"]
  by (simp add: annual_series_unit_project discounted_from_def)

section \<open>The cash-flow array of the result\<close>

text \<open>
  C2 asks for a cash-flow array of length \<open>L\<close> in the result, one entry per project year. The
  loop of step 5 builds such an array, but \<^verbatim>\<open>calculateNPVlikeExcel\<close> then puts a zero in
  front of that same array, and the result holds it in this state: its length is \<open>L + 1\<close>
  (\<open>length_cash_flows_calculateLCOE\<close>). For a lifetime of two years the result has three
  entries.
\<close>

theorem cash_flows_one_longer_than_lifetime:
  "project_lifetime (unit_project\<lparr>project_lifetime := 2\<rparr>) = 2 \<and>
   length (cash_flows (calculateLCOE (unit_project\<lparr>project_lifetime := 2\<rparr>))) = 3"
  by (simp add: length_cash_flows_calculateLCOE)

text \<open>
  C7 asks that entry \<open>i\<close> of the result's cash flows be the escalated operating cost of year \<open>i\<close>
  plus the financing payment if \<open>i\<close> is below the loan tenure, and so without a financing part
  from the tenure on. With a tenure of one year and a lifetime of two, the operating cost is 0
  and the payment 400, so the entries should be 400 and 0, as in the annual series. The array
  in the result is shifted by the zero in front: entry 0 is 0, and entry 1 (an index not below
  the tenure) is the payment 400.
\<close>

theorem cash_flows_shifted_by_one:
  "loan_tenure (unit_project\<lparr>project_lifetime := 2\<rparr>) = 1 \<and>
   project_lifetime (unit_project\<lparr>project_lifetime := 2\<rparr>) = 2 \<and>
   annual_opex (calculateLCOE (unit_project\<lparr>project_lifetime := 2\<rparr>)) = 0 \<and>
   annual_emi (calculateLCOE (unit_project\<lparr>project_lifetime := 2\<rparr>)) = 400 \<and>
   annual_series (unit_project\<lparr>project_lifetime := 2\<rparr>) = [400, 0] \<and>
   cash_flows (calculateLCOE (unit_project\<lparr>project_lifetime := 2\<rparr>)) = [0, 400, 0]"
  by (simp add: cash_flows_calculateLCOE annual_series_two_years annual_opex_calculateLCOE
      annual_emi_calculateLCOE capex_calculateLCOE)

section \<open>Validation\<close>

text \<open>
  C3, as stated, does not hold: \<^verbatim>\<open>calculateLCOE\<close> has no check of its inputs and no path
  that ends without a result. With a capacity of \<open>-2\<close> it returns a capital cost of \<open>-200\<close> and
  the figures derived from it; with a lifetime of 0 it returns the capital cost 400, the
  payment 400, the total loan repayment 400 and the utilization \<open>1 / 8760\<close>.
\<close>

theorem calculateLCOE_returns_on_invalid_inputs:
  "capacity (unit_project\<lparr>capacity := - 2\<rparr>) \<le> 0 \<and>
   capex (calculateLCOE (unit_project\<lparr>capacity := - 2\<rparr>)) = - 200 \<and>
   annual_emi (calculateLCOE (unit_project\<lparr>capacity := - 2\<rparr>)) = - 200 \<and>
   total_loan (calculateLCOE (unit_project\<lparr>capacity := - 2\<rparr>)) = - 200 \<and>
   npv_opex (calculateLCOE (unit_project\<lparr>capacity := - 2\<rparr>)) = - 200 \<and>
   project_lifetime (unit_project\<lparr>project_lifetime := 0\<rparr>) \<le> 0 \<and>
   capex (calculateLCOE (unit_project\<lparr>project_lifetime := 0\<rparr>)) = 400 \<and>
   annual_emi (calculateLCOE (unit_project\<lparr>project_lifetime := 0\<rparr>)) = 400 \<and>
   total_loan (calculateLCOE (unit_project\<lparr>project_lifetime := 0\<rparr>)) = 400 \<and>
   cue (calculateLCOE (unit_project\<lparr>project_lifetime := 0\<rparr>)) = Finite (1 / 8760)"
  by (simp add: capex_calculateLCOE annual_emi_calculateLCOE total_loan_calculateLCOE
      cue_calculateLCOE calculateCUE_def hours_in_year_def annual_series_map
      annual_opex_calculateLCOE upt_conv_Cons npv_opex_discounted discounted_from_def)

text \<open>
  C3, amended. \<^verbatim>\<open>calculateLCOE\<close> validates nothing and returns a complete result record for
  every input, a capacity or lifetime that is not positive included: the capital cost, the
  operating cost of year 0, the financing payment and the utilization are computed by the same
  formulas as for any other input. When the project lifetime is not positive the loops do not
  run: the total operating cost and the total energy are 0, the annual series is empty, and
  both levelized costs are the sentinel 0.
\<close>

theorem calculateLCOE_no_validation:
  "capex (calculateLCOE inp) = capex_per_mw inp / capacity inp \<and>
   annual_opex (calculateLCOE inp) = capex_per_mw inp / capacity inp * opex_percent inp / 100 \<and>
   annual_emi (calculateLCOE inp) = capex_per_mw inp / capacity inp * (interest_rate inp / 100) \<and>
   cue (calculateLCOE inp) = calculateCUE (energy_generation inp) (capacity inp) \<and>
   (project_lifetime inp \<le> 0 \<longrightarrow>
      total_om (calculateLCOE inp) = 0 \<and> total_energy (calculateLCOE inp) = 0 \<and>
      annual_series inp = [] \<and>
      lcoe_mwh (calculateLCOE inp) = Finite 0 \<and> lcoe_kwh (calculateLCOE inp) = Finite 0)"
proof -
  have "nat \<lceil>project_lifetime inp\<rceil> = 0" if "project_lifetime inp \<le> 0"
    using that by simp
  then show ?thesis
    by (simp add: capex_calculateLCOE annual_opex_calculateLCOE annual_emi_calculateLCOE
        cue_calculateLCOE total_om_calculateLCOE total_energy_calculateLCOE
        calculateTotalOM_sum calculateTotalEnergy_sum annual_series_map
        lcoe_mwh_calculateLCOE lcoe_kwh_calculateLCOE)
qed

text \<open>Witness for the amended C3: a lifetime of zero years.\<close>

theorem calculateLCOE_no_validation_witness:
  "project_lifetime (unit_project\<lparr>project_lifetime := 0\<rparr>) \<le> 0 \<and>
   total_energy (calculateLCOE (unit_project\<lparr>project_lifetime := 0\<rparr>)) = 0 \<and>
   lcoe_mwh (calculateLCOE (unit_project\<lparr>project_lifetime := 0\<rparr>)) = Finite 0 \<and>
   lcoe_kwh (calculateLCOE (unit_project\<lparr>project_lifetime := 0\<rparr>)) = Finite 0"
  using calculateLCOE_no_validation [of "unit_project\<lparr>project_lifetime := 0\<rparr>"] by simp

section \<open>Capital cost, energy and financing\<close>

text \<open>
  C4. For every input record, the total capital expenditure in the result of
  \<^verbatim>\<open>calculateLCOE\<close> is the supplied CAPEX rate divided by the capacity (not multiplied by it).
  The quotient is the one of the program's arithmetic; see the remark on a zero capacity at
  the head of this theory.
\<close>

theorem capex_is_rate_over_capacity:
  "capex (calculateLCOE inp) = capex_per_mw inp / capacity inp"
  by (rule capex_calculateLCOE)

text \<open>
  C5. For every input record whose project lifetime is the integer \<open>L\<close>, the total energy in the
  result is the sum over \<open>i = 0, \<dots>, L - 1\<close> of \<open>(energy_generation / capacity) \<times> (1 - 0.005) ^ i\<close>.
  For \<open>L \<le> 0\<close> the sum is empty.
\<close>

theorem total_energy_is_degraded_sum:
  "project_lifetime inp = of_int L \<Longrightarrow>
   total_energy (calculateLCOE inp) =
     (\<Sum>i<nat L. energy_generation inp / capacity inp * (1 - 0.005) ^ i)"
  by (simp add: total_energy_calculateLCOE calculateTotalEnergy_sum degradation_rate_def)

text \<open>
  Witness for C5: a lifetime of two years gives \<open>1 + 0.995\<close> for a normalized output of 1.
\<close>

theorem total_energy_is_degraded_sum_witness:
  "project_lifetime (unit_project\<lparr>project_lifetime := 2\<rparr>) = of_int 2 \<and>
   total_energy (calculateLCOE (unit_project\<lparr>project_lifetime := 2\<rparr>)) = 1.995"
  using total_energy_is_degraded_sum [of "unit_project\<lparr>project_lifetime := 2\<rparr>" 2]
  by (simp add: sum_lessThan_2)

text \<open>
  C6. For every input record, the annual financing payment in the result is the capital cost
  times \<open>interest_rate / 100\<close>, and the result applies this same payment in every year in which
  the loan is active: the cash flow of project year \<open>i\<close> that the result holds (behind the zero
  in front of the array, so at index \<open>i + 1\<close>) is the escalated operating cost plus the payment
  while \<open>i\<close> is below the loan tenure, and plus 0 afterwards; the present value of costs in the
  result is the discounted sum of exactly these yearly amounts; and with a loan tenure of 0 the
  cash flow of every year is the escalated operating cost alone.
\<close>

theorem annual_emi_simple_interest:
  "annual_emi (calculateLCOE inp) = capex (calculateLCOE inp) * (interest_rate inp / 100) \<and>
   (\<forall>i<nat \<lceil>project_lifetime inp\<rceil>.
      cash_flows (calculateLCOE inp) ! Suc i =
        annual_opex (calculateLCOE inp) * 1.05 ^ i +
        (if real i < loan_tenure inp then annual_emi (calculateLCOE inp) else 0)) \<and>
   (discount_rate inp \<noteq> - 100 \<longrightarrow>
      npv_opex (calculateLCOE inp) =
        (\<Sum>i<nat \<lceil>project_lifetime inp\<rceil>.
           (annual_opex (calculateLCOE inp) * 1.05 ^ i +
            (if real i < loan_tenure inp then annual_emi (calculateLCOE inp) else 0)) /
           (1 + discount_rate inp / 100) ^ (i + 2))) \<and>
   (loan_tenure inp = 0 \<longrightarrow>
      (\<forall>i<nat \<lceil>project_lifetime inp\<rceil>.
         cash_flows (calculateLCOE inp) ! Suc i = annual_opex (calculateLCOE inp) * 1.05 ^ i))"
proof -
  have "npv_opex (calculateLCOE inp) =
          (\<Sum>i<nat \<lceil>project_lifetime inp\<rceil>.
             (annual_opex (calculateLCOE inp) * 1.05 ^ i +
              (if real i < loan_tenure inp then annual_emi (calculateLCOE inp) else 0)) /
             (1 + discount_rate inp / 100) ^ (i + 2))"
    unfolding npv_opex_discounted discounted_from_def length_annual_series
    by (rule sum.cong) (simp_all add: nth_annual_series opex_escalation_rate_def)
  moreover have "cash_flows (calculateLCOE inp) ! Suc i =
          annual_opex (calculateLCOE inp) * 1.05 ^ i +
          (if real i < loan_tenure inp then annual_emi (calculateLCOE inp) else 0)"
    if "i < nat \<lceil>project_lifetime inp\<rceil>" for i
    using that
    by (simp add: cash_flows_calculateLCOE nth_annual_series opex_escalation_rate_def)
  ultimately show ?thesis
    using annual_emi_calculateLCOE [of inp] by simp
qed

text \<open>
  Witness for C6: a loan over the first of two years, and the one-year project without a loan.
\<close>

theorem annual_emi_simple_interest_witness:
  "annual_emi (calculateLCOE (unit_project\<lparr>project_lifetime := 2\<rparr>)) = 400 \<and>
   cash_flows (calculateLCOE (unit_project\<lparr>project_lifetime := 2\<rparr>)) ! Suc 0 = 400 \<and>
   cash_flows (calculateLCOE (unit_project\<lparr>project_lifetime := 2\<rparr>)) ! Suc 1 = 0 \<and>
   discount_rate (unit_project\<lparr>project_lifetime := 2\<rparr>) \<noteq> - 100 \<and>
   npv_opex (calculateLCOE (unit_project\<lparr>project_lifetime := 2\<rparr>)) = 400 \<and>
   loan_tenure (unit_project\<lparr>loan_tenure := 0\<rparr>) = 0 \<and>
   cash_flows (calculateLCOE (unit_project\<lparr>loan_tenure := 0\<rparr>)) ! Suc 0 = 0"
proof -
  let ?two = "unit_project\<lparr>project_lifetime := 2\<rparr>"
  let ?none = "unit_project\<lparr>loan_tenure := 0\<rparr>"
  note two = annual_emi_simple_interest [of ?two]
  note none = annual_emi_simple_interest [of ?none]
  have opex: "annual_opex (calculateLCOE ?two) = 0" "annual_opex (calculateLCOE ?none) = 0"
    by (simp_all add: annual_opex_calculateLCOE)
  have emi: "annual_emi (calculateLCOE ?two) = 400"
    using two by (simp add: capex_calculateLCOE)
  have years: "(0::nat) < nat \<lceil>project_lifetime ?two\<rceil>" "(1::nat) < nat \<lceil>project_lifetime ?two\<rceil>"
    "(0::nat) < nat \<lceil>project_lifetime ?none\<rceil>"
    by simp_all
  have first: "cash_flows (calculateLCOE ?two) ! Suc 0 = 400"
    using two years(1) opex(1) emi by auto
  have second: "cash_flows (calculateLCOE ?two) ! Suc 1 = 0"
    using two years(2) opex(1) emi by auto
  have npv: "npv_opex (calculateLCOE ?two) = 400"
    using two opex(1) emi by (simp add: sum_lessThan_2)
  have no_loan: "cash_flows (calculateLCOE ?none) ! Suc 0 = 0"
    using none years(3) opex(2) by auto
  show ?thesis
    using emi first second npv no_loan by simp
qed

section \<open>The levelized cost and the utilization\<close>

text \<open>
  C8. Whenever the total energy is not greater than 0, both levelized costs in the result are
  the sentinel 0, a finite number: the quotient by the total energy, which at a total energy of
  0 would be \<^verbatim>\<open>Infinity\<close>, \<^verbatim>\<open>-Infinity\<close> or \<^verbatim>\<open>NaN\<close>, is not formed. In every result the
  cost per kWh is the cost per MWh divided by 1000.
\<close>

theorem lcoe_sentinel_and_unit_consistency:
  "(\<not> 0 < total_energy (calculateLCOE inp) \<longrightarrow>
      lcoe_mwh (calculateLCOE inp) = Finite 0 \<and> lcoe_kwh (calculateLCOE inp) = Finite 0) \<and>
   js_div (Finite x) (Finite 0) \<noteq> Finite 0 \<and>
   lcoe_kwh (calculateLCOE inp) = js_div (lcoe_mwh (calculateLCOE inp)) (Finite 1000)"
  by (simp add: lcoe_kwh_Finite lcoe_mwh_Finite)

text \<open>
  Witness for C8: a total energy of 0 (a lifetime of zero years) and a negative total energy
  (a negative energy generation).
\<close>

theorem lcoe_sentinel_and_unit_consistency_witness:
  "total_energy (calculateLCOE (unit_project\<lparr>project_lifetime := 0\<rparr>)) = 0 \<and>
   lcoe_mwh (calculateLCOE (unit_project\<lparr>project_lifetime := 0\<rparr>)) = Finite 0 \<and>
   lcoe_kwh (calculateLCOE (unit_project\<lparr>project_lifetime := 0\<rparr>)) = Finite 0 \<and>
   total_energy (calculateLCOE (unit_project\<lparr>energy_generation := - 1\<rparr>)) = - 1 \<and>
   lcoe_mwh (calculateLCOE (unit_project\<lparr>energy_generation := - 1\<rparr>)) = Finite 0 \<and>
   lcoe_kwh (calculateLCOE (unit_project\<lparr>energy_generation := - 1\<rparr>)) = Finite 0"
proof -
  have "total_energy (calculateLCOE (unit_project\<lparr>project_lifetime := 0\<rparr>)) = 0"
    by (simp add: total_energy_calculateLCOE calculateTotalEnergy_sum)
  moreover have "total_energy (calculateLCOE (unit_project\<lparr>energy_generation := - 1\<rparr>)) = - 1"
    by (simp add: total_energy_calculateLCOE calculateTotalEnergy_sum)
  ultimately show ?thesis
    using lcoe_sentinel_and_unit_consistency [of "unit_project\<lparr>project_lifetime := 0\<rparr>"]
      lcoe_sentinel_and_unit_consistency [of "unit_project\<lparr>energy_generation := - 1\<rparr>"]
    by simp
qed

text \<open>
  C10. \<^verbatim>\<open>calculateCUE\<close> is defined on every pair of finite arguments with a finite result:
  it returns the sentinel 0 when the capacity is 0, where the quotient itself would be
  \<^verbatim>\<open>Infinity\<close>, \<^verbatim>\<open>-Infinity\<close> or \<^verbatim>\<open>NaN\<close>, and \<open>annual_energy / (capacity \<times> 8760)\<close>
  otherwise; \<^verbatim>\<open>calculateLCOE\<close> reports the value of \<^verbatim>\<open>calculateCUE\<close> on the supplied energy
  generation and capacity.
\<close>

theorem calculateCUE_guarded:
  "(c = 0 \<longrightarrow> calculateCUE e c = Finite 0) \<and>
   (c \<noteq> 0 \<longrightarrow> calculateCUE e c = Finite (e / (c * 8760))) \<and>
   js_div (Finite e) (Finite (0 * hours_in_year)) \<noteq> Finite 0 \<and>
   cue (calculateLCOE inp) = calculateCUE (energy_generation inp) (capacity inp)"
  by (simp add: calculateCUE_def hours_in_year_def cue_calculateLCOE)

text \<open>Witness for C10: one call on each side of the guard.\<close>

theorem calculateCUE_guarded_witness:
  "(0::real) = 0 \<and> calculateCUE 8760 0 = Finite 0 \<and>
   (2::real) \<noteq> 0 \<and> calculateCUE 8760 2 = Finite (1 / 2)"
  using calculateCUE_guarded [of 0 8760] calculateCUE_guarded [of 2 8760] by simp

section \<open>The discount-rate sweep\<close>

text \<open>
  C9, as stated, does not hold: the levelized cost per kWh would never fall along the sweep.
  On the small project the sweep returns, and its second value (at 5.5 percent) is below its
  first (at 5 percent): a higher rate discounts the same costs more.
\<close>

theorem sweep_lcoe_kwh_not_non_decreasing:
  "generateSensitivityAnalysis unit_project 5 15 0.5 \<noteq> None \<and>
   \<not> sorted_wrt js_le
       (map point_lcoe_kwh (the (generateSensitivityAnalysis unit_project 5 15 0.5)))"
proof -
  have "\<not> js_le (lcoe_kwh (calculateLCOE (unit_project\<lparr>discount_rate := 5\<rparr>)))
            (lcoe_kwh (calculateLCOE (unit_project\<lparr>discount_rate := 5.5\<rparr>)))"
    by (simp add: lcoe_kwh_Finite total_energy_calculateLCOE
        calculateTotalEnergy_sum capex_calculateLCOE npv_opex_discounted
        annual_series_unit_project discounted_from_def)
  then show ?thesis
    using generateSensitivityAnalysis_default [of unit_project]
    by (simp add: default_rates_def sweep_point_def)
qed

text \<open>
  C9, amended. For every base input record with a positive capacity and a CAPEX rate, an OPEX
  percentage and an interest rate that are not negative, the sweep of the discount rate from 5
  to 15 percent in steps of 0.5 returns one point for each of the 21 rates, in this order, and
  the sequence of the levelized costs per kWh is monotonically non-increasing in the discount
  rate.
\<close>

theorem sweep_lcoe_kwh_non_increasing:
  assumes "0 < capacity base" "0 \<le> capex_per_mw base" "0 \<le> opex_percent base"
    "0 \<le> interest_rate base"
  shows "\<exists>pts. generateSensitivityAnalysis base 5 15 0.5 = Some pts \<and>
           map point_rate pts = default_rates \<and>
           sorted_wrt (\<lambda>a b. js_le b a) (map point_lcoe_kwh pts)"
proof -
  have "sorted_wrt (\<lambda>a b. js_le (point_lcoe_kwh (sweep_point base b))
                         (point_lcoe_kwh (sweep_point base a))) default_rates"
    using default_rates_sorted
    by (rule sorted_wrt_mono_rel [rotated])
       (simp add: sweep_point_def lcoe_kwh_antimono [OF assms])
  then have "sorted_wrt (\<lambda>a b. js_le b a)
               (map point_lcoe_kwh (map (sweep_point base) default_rates))"
    by (simp add: sorted_wrt_map)
  moreover have "map point_rate (map (sweep_point base) default_rates) = default_rates"
    by (simp add: sweep_point_def comp_def)
  ultimately show ?thesis
    using generateSensitivityAnalysis_default [of base] by simp
qed

text \<open>Witness for the amended C9: the small project meets the four conditions.\<close>

theorem sweep_lcoe_kwh_non_increasing_witness:
  "0 < capacity unit_project \<and> 0 \<le> capex_per_mw unit_project \<and>
   0 \<le> opex_percent unit_project \<and> 0 \<le> interest_rate unit_project \<and>
   (\<exists>pts. generateSensitivityAnalysis unit_project 5 15 0.5 = Some pts \<and>
          map point_rate pts = default_rates \<and>
          sorted_wrt (\<lambda>a b. js_le b a) (map point_lcoe_kwh pts))"
  using sweep_lcoe_kwh_non_increasing [of unit_project] by simp

end
